theory Spec2Isabelle
  imports Main "HOL-Library.AList"
begin

section \<open>JavaScript values, objects and React elements\<close>

text \<open>
  The component works on untyped property bags: it spreads them, takes a rest pattern out
  of them and hands them to \<open>cloneElement\<close>. A value is therefore a JavaScript value; an
  object is an association list in insertion order (its keys are distinct); a React
  element carries the name of its type, the \<open>defaultProps\<close> of that type (\<open>None\<close> when
  the type declares none) and its props. The \<open>key\<close> and \<open>ref\<close> of an element, which React
  keeps outside the props, are not represented; numbers are integers.
\<close>

datatype val =
    JUndefined
  | JNull
  | JBool bool
  | JNum int
  | JStr string
  | JArr "val list"
  | JObj "(string \<times> val) list"
  | JElem string "(string \<times> val) list option" "(string \<times> val) list"

type_synonym obj = "(string \<times> val) list"

datatype error =
    UsageError string
  | Invariant string

text \<open>\<open>o.k\<close>: a missing property reads as \<open>undefined\<close>.\<close>

definition getProp :: "obj \<Rightarrow> string \<Rightarrow> val" where
  "getProp ob k = (case map_of ob k of None \<Rightarrow> JUndefined | Some v \<Rightarrow> v)"

text \<open>\<open>Object.assign(target, source)\<close> and the object spread: every own property of the
  source is written to the target, in the order of the source.\<close>

definition assign :: "obj \<Rightarrow> obj \<Rightarrow> obj" where
  "assign target source = foldl (\<lambda>t (k, v). AList.update k v t) target source"

text \<open>The rest pattern \<open>const { k1, ..., kn, ...rest } = o\<close>.\<close>

definition omit :: "string list \<Rightarrow> obj \<Rightarrow> obj" where
  "omit ks ob = filter (\<lambda>(k, v). k \<notin> set ks) ob"

text \<open>JavaScript truthiness, as \<open>!x\<close> and \<open>x && y\<close> test it.\<close>

fun truthy :: "val \<Rightarrow> bool" where
  "truthy JUndefined = False"
| "truthy JNull = False"
| "truthy (JBool b) = b"
| "truthy (JNum n) = (n \<noteq> 0)"
| "truthy (JStr s) = (s \<noteq> [])"
| "truthy (JArr xs) = True"
| "truthy (JObj ob) = True"
| "truthy (JElem t d ps) = True"

fun isValidElement :: "val \<Rightarrow> bool" where
  "isValidElement (JElem t d ps) = True"
| "isValidElement v = False"

subsection \<open>The React primitives the component calls\<close>

text \<open>
  \<open>React.Children.count\<close>: \<open>null\<close> and \<open>undefined\<close> at the top count zero; otherwise
  every leaf (an element, a string, a number, and also an empty node inside an array)
  counts one, arrays are traversed, and a plain object is refused with an invariant
  violation.
\<close>

fun traverseAllChildren :: "val \<Rightarrow> error + nat"
  and traverseAll :: "val list \<Rightarrow> error + nat" where
  "traverseAllChildren JUndefined = Inr 1"
| "traverseAllChildren JNull = Inr 1"
| "traverseAllChildren (JBool b) = Inr 1"
| "traverseAllChildren (JNum n) = Inr 1"
| "traverseAllChildren (JStr s) = Inr 1"
| "traverseAllChildren (JElem t d ps) = Inr 1"
| "traverseAllChildren (JArr xs) = traverseAll xs"
| "traverseAllChildren (JObj ob) = Inl (Invariant ''Objects are not valid as a React child'')"
| "traverseAll [] = Inr 0"
| "traverseAll (x # xs) =
     (case traverseAllChildren x of
        Inl e \<Rightarrow> Inl e
      | Inr n \<Rightarrow> (case traverseAll xs of Inl e \<Rightarrow> Inl e | Inr m \<Rightarrow> Inr (n + m)))"

definition Children_count :: "val \<Rightarrow> error + nat" where
  "Children_count children =
     (if children = JUndefined \<or> children = JNull then Inr 0
      else traverseAllChildren children)"

text \<open>\<open>React.Children.only\<close>: the argument itself must be an element.\<close>

definition Children_only :: "val \<Rightarrow> error + val" where
  "Children_only children =
     (if isValidElement children then Inr children
      else Inl (Invariant ''React.Children.only expected to receive a single React element child.''))"

definition RESERVED_PROPS :: "string list" where
  "RESERVED_PROPS = [''key'', ''ref'', ''__self'', ''__source'']"

text \<open>
  \<open>React.createElement(type, config, ...children)\<close>: the props are the config without the
  reserved names, then \<open>children\<close> (the child itself when there is one, the array when
  there are several), then the defaults of the type for every prop still \<open>undefined\<close>.
\<close>

definition createElement :: "string \<Rightarrow> obj option \<Rightarrow> obj \<Rightarrow> val list \<Rightarrow> val" where
  "createElement type defaultProps config children =
     (let props0 = omit RESERVED_PROPS config;
          props1 = (case children of
                      [] \<Rightarrow> props0
                    | [c] \<Rightarrow> AList.update ''children'' c props0
                    | _ \<Rightarrow> AList.update ''children'' (JArr children) props0);
          props2 = (case defaultProps of
                      None \<Rightarrow> props1
                    | Some d \<Rightarrow>
                        foldl (\<lambda>ps (k, v). if getProp ps k = JUndefined then AList.update k v ps else ps)
                          props1 d)
      in JElem type defaultProps props2)"

text \<open>
  \<open>React.cloneElement(element, config)\<close> with no child argument: the props of the element,
  overwritten by every property of the config that is not reserved; a config value that
  is \<open>undefined\<close> is replaced by the default of the type when the type has defaults.
  \<open>null\<close> and \<open>undefined\<close> are refused. The parameter type of \<open>cloneElement\<close> is
  \<open>ReactElement\<close>; the model refuses every other value too.
\<close>

definition cloneProps :: "obj option \<Rightarrow> obj \<Rightarrow> obj \<Rightarrow> obj" where
  "cloneProps defaultProps props config =
     foldl (\<lambda>ps (k, v).
              if k \<in> set RESERVED_PROPS then ps
              else (case defaultProps of
                      None \<Rightarrow> AList.update k v ps
                    | Some d \<Rightarrow> AList.update k (if v = JUndefined then getProp d k else v) ps))
       props config"

fun cloneElement :: "val \<Rightarrow> obj \<Rightarrow> error + val" where
  "cloneElement (JElem t d ps) config = Inr (JElem t d (cloneProps d ps config))"
| "cloneElement v config =
     Inl (Invariant ''React.cloneElement(...): The argument must be a React element'')"

section \<open>The component\<close>

text \<open>The class names \<open>makeStyles\<close> produces for the one rule of the style sheet.\<close>

record classes =
  progress :: string

text \<open>
  \<open>ReferenceArrayFieldView\<close>. The two collaborators that live in other files are
  parameters: \<open>sanitizeRestProps\<close> (from \<open>./sanitizeRestProps\<close>) and the \<open>useStyles\<close> hook.
\<close>

definition ReferenceArrayFieldView ::
  "(obj \<Rightarrow> obj) \<Rightarrow> (obj \<Rightarrow> classes) \<Rightarrow> obj \<Rightarrow> error + val" where
  "ReferenceArrayFieldView sanitizeRestProps useStyles props =
     (let children = getProp props ''children'';
          pagination = getProp props ''pagination'';
          className = getProp props ''className'';
          reference = getProp props ''reference'';
          rest = omit [''children'', ''pagination'', ''className'', ''reference''] props;
          classes = useStyles props
      in
        if \<not> truthy (getProp props ''loaded'') then
          Inr (createElement ''LinearProgress'' None
                 [(''className'', JStr (progress classes))] [])
        else
          (case Children_only children of
             Inl e \<Rightarrow> Inl e
           | Inr only \<Rightarrow>
              (case cloneElement only
                      (assign (sanitizeRestProps rest)
                         [(''className'', className), (''resource'', reference)]) of
                 Inl e \<Rightarrow> Inl e
               | Inr child \<Rightarrow>
                  (if \<not> truthy pagination then
                     Inr (createElement ''Fragment'' None [] [child, JStr '' '', pagination])
                   else if \<not> (getProp props ''total'' \<noteq> JUndefined) then
                     Inr (createElement ''Fragment'' None [] [child, JStr '' '', JBool False])
                   else
                     (case cloneElement pagination (sanitizeRestProps rest) of
                        Inl e \<Rightarrow> Inl e
                      | Inr pag \<Rightarrow>
                          Inr (createElement ''Fragment'' None [] [child, JStr '' '', pag]))))))"

text \<open>
  \<open>ReferenceArrayField\<close>. The controller hook \<open>useReferenceArrayFieldController\<close> (from
  \<open>ra-core\<close>) is a parameter; every call of it is recorded, with its argument, at the end
  of the list of hook calls that is threaded through. A \<open>throw\<close> is the \<open>Inl\<close> result.
\<close>

definition ReferenceArrayField ::
  "(obj \<Rightarrow> obj) \<Rightarrow> obj \<Rightarrow> obj list \<Rightarrow> (error + val) \<times> obj list" where
  "ReferenceArrayField useReferenceArrayFieldController props calls =
     (let basePath = getProp props ''basePath'';
          children = getProp props ''children'';
          filter = getProp props ''filter'';
          page = (if getProp props ''page'' = JUndefined then JNum 1 else getProp props ''page'');
          perPage = getProp props ''perPage'';
          record = getProp props ''record'';
          reference = getProp props ''reference'';
          resource = getProp props ''resource'';
          sort = getProp props ''sort'';
          source = getProp props ''source''
      in
        (case Children_count children of
           Inl e \<Rightarrow> (Inl e, calls)
         | Inr n \<Rightarrow>
            if n \<noteq> 1 then
              (Inl (UsageError
                 ''<ReferenceArrayField> only accepts a single child (like <Datagrid>)''), calls)
            else
              (let args = [(''basePath'', basePath), (''filter'', filter), (''page'', page),
                           (''perPage'', perPage), (''record'', record),
                           (''reference'', reference), (''resource'', resource),
                           (''sort'', sort), (''source'', source)];
                   controllerProps = useReferenceArrayFieldController args
               in
                 (Inr (createElement ''ListContextProvider'' None
                         [(''value'', JObj controllerProps)]
                         [createElement ''PureReferenceArrayFieldView'' None
                            (assign (assign [] props) controllerProps) []]),
                  calls @ [args]))))"

section \<open>Sample inputs\<close>

text \<open>
  Concrete collaborators and elements, used where a statement is evaluated on an input:
  a \<open>Datagrid\<close> child, a pagination element whose type has \<open>defaultProps\<close>, a sanitizer
  that drops four field props, a style hook and a controller with fixed results.
\<close>

definition sampleChild :: val where
  "sampleChild = JElem ''Datagrid'' None [(''className'', JStr ''grid'')]"

definition samplePagination :: val where
  "samplePagination =
     JElem ''Pagination'' (Some [(''rowsPerPage'', JNum 25)]) [(''rowsPerPage'', JNum 25)]"

definition sampleSanitize :: "obj \<Rightarrow> obj" where
  "sampleSanitize = omit [''basePath'', ''record'', ''resource'', ''source'']"

definition sampleStyles :: "obj \<Rightarrow> classes" where
  "sampleStyles props = \<lparr>progress = ''RaReferenceArrayField-progress''\<rparr>"

definition sampleController :: "obj \<Rightarrow> obj" where
  "sampleController args =
     [(''loaded'', JBool True), (''ids'', JArr [JNum 456, JNum 457]), (''total'', JNum 2)]"

text \<open>A controller whose results are read from the argument it is called with.\<close>

definition samplePagingController :: "obj \<Rightarrow> obj" where
  "samplePagingController args =
     [(''loaded'', JBool False), (''page'', getProp args ''page''),
      (''perPage'', getProp args ''perPage''), (''resource'', getProp args ''reference'')]"

text \<open>
  The style hook is no function of the props alone: it reads the theme and the registry of
  style sheets, and the class name it returns ends in the number of the sheet. These are
  the hook as it answers when the sheet is the first and when it is the second.
\<close>

definition sampleStylesFirstSheet :: "obj \<Rightarrow> classes" where
  "sampleStylesFirstSheet props = \<lparr>progress = ''RaReferenceArrayField-progress-1''\<rparr>"

definition sampleStylesSecondSheet :: "obj \<Rightarrow> classes" where
  "sampleStylesSecondSheet props = \<lparr>progress = ''RaReferenceArrayField-progress-2''\<rparr>"

definition sampleFieldProps :: "val \<Rightarrow> obj" where
  "sampleFieldProps children =
     [(''reference'', JStr ''products''), (''source'', JStr ''product_ids''),
      (''resource'', JStr ''orders''), (''children'', children)]"

definition sampleViewProps :: "val \<Rightarrow> val \<Rightarrow> val \<Rightarrow> obj" where
  "sampleViewProps loaded pagination totalCount =
     [(''reference'', JStr ''products''), (''resource'', JStr ''orders''),
      (''className'', JStr ''refs''), (''children'', sampleChild),
      (''pagination'', pagination), (''loaded'', loaded),
      (''ids'', JArr [JNum 456, JNum 457]), (''total'', totalCount)]"

section \<open>Objects\<close>

lemma map_of_omit: "map_of (omit ks ob) k = (if k \<in> set ks then None else map_of ob k)"
  unfolding omit_def by (induction ob) auto

lemma keys_omit: "fst ` set (omit ks ob) = fst ` set ob - set ks"
  unfolding omit_def by force

lemma getProp_update:
  "getProp (AList.update k v ob) k' = (if k' = k then v else getProp ob k')"
  by (simp add: getProp_def update_conv')

lemma keys_update: "fst ` set (AList.update k v ob) = insert k (fst ` set ob)"
  by (induction ob) auto

lemma assign_two:
  "assign ob [(k1, v1), (k2, v2)] = AList.update k2 v2 (AList.update k1 v1 ob)"
  by (simp add: assign_def)

text \<open>A spread reads, for every key, the last value the source gives it, and the target's
  value for the keys the source does not have.\<close>

lemma map_of_assign:
  "map_of (assign t s) k = (case map_of (rev s) k of None \<Rightarrow> map_of t k | Some v \<Rightarrow> Some v)"
proof (induction s arbitrary: t)
  case Nil
  then show ?case by (simp add: assign_def)
next
  case (Cons kv s)
  obtain a b where kv: "kv = (a, b)" by (cases kv)
  have "assign t (kv # s) = assign (AList.update a b t) s"
    by (simp add: assign_def kv)
  then show ?case
    by (simp add: Cons.IH kv update_conv' map_add_def split: option.splits)
qed

section \<open>React primitives\<close>

text \<open>A config leaves every prop it does not name as the element had it.\<close>

lemma cloneProps_other:
  "k \<notin> fst ` set cfg \<Longrightarrow> map_of (cloneProps d ps cfg) k = map_of ps k"
  unfolding cloneProps_def
  by (induction cfg arbitrary: ps) (auto simp: update_conv' split: option.splits)

text \<open>An array of elements counts as many children as it has entries.\<close>

lemma traverseAll_elements:
  "\<forall>x\<in>set xs. isValidElement x \<Longrightarrow> traverseAll xs = Inr (length xs)"
proof (induction xs)
  case Nil
  then show ?case by simp
next
  case (Cons x xs)
  then obtain t d ps where "x = JElem t d ps" by (cases x) auto
  with Cons show ?case by simp
qed

lemma Children_count_elements:
  "\<forall>x\<in>set xs. isValidElement x \<Longrightarrow> Children_count (JArr xs) = Inr (length xs)"
  by (simp add: Children_count_def traverseAll_elements)

lemma Children_count_element: "Children_count (JElem t d ps) = Inr 1"
  by (simp add: Children_count_def)

lemma Children_count_absent: "Children_count JUndefined = Inr 0"
  by (simp add: Children_count_def)

lemma Fragment_three:
  "createElement ''Fragment'' None [] [a, b, c] =
     JElem ''Fragment'' None [(''children'', JArr [a, b, c])]"
  by (simp add: createElement_def omit_def)

section \<open>The view, once loaded\<close>

lemma view_loaded:
  assumes "truthy (getProp props ''loaded'')"
    and "getProp props ''children'' = JElem t d ps"
  shows "ReferenceArrayFieldView S U props =
     (let rest = omit [''children'', ''pagination'', ''className'', ''reference''] props;
          child = JElem t d (cloneProps d ps (assign (S rest)
                    [(''className'', getProp props ''className''),
                     (''resource'', getProp props ''reference'')]))
      in if \<not> truthy (getProp props ''pagination'') then
           Inr (JElem ''Fragment'' None
                  [(''children'', JArr [child, JStr '' '', getProp props ''pagination''])])
         else if getProp props ''total'' = JUndefined then
           Inr (JElem ''Fragment'' None [(''children'', JArr [child, JStr '' '', JBool False])])
         else (case cloneElement (getProp props ''pagination'') (S rest) of
                 Inl e \<Rightarrow> Inl e
               | Inr pag \<Rightarrow>
                   Inr (JElem ''Fragment'' None [(''children'', JArr [child, JStr '' '', pag])])))"
  using assms
  by (simp add: ReferenceArrayFieldView_def Let_def Children_only_def Fragment_three
      split: sum.splits)

text \<open>The definitions a concrete evaluation unfolds.\<close>

lemmas sample_defs = getProp_def sampleViewProps_def sampleFieldProps_def sampleChild_def
  samplePagination_def sampleSanitize_def sampleStyles_def sampleController_def omit_def assign_def
  cloneProps_def RESERVED_PROPS_def Children_count_def

section \<open>Claims\<close>

text \<open>
  C1. \<open>ReferenceArrayField\<close> throws exactly when the number of children it receives, as
  \<open>React.Children.count\<close> counts them, is not one: with zero or with two or more children
  the result is the usage error, and with one child the component returns an element.
\<close>

theorem ReferenceArrayField_throws_iff_not_one_child:
  "Children_count (getProp props ''children'') = Inr n \<Longrightarrow>
     (n \<noteq> 1 \<longrightarrow> fst (ReferenceArrayField ctrl props calls) =
         Inl (UsageError ''<ReferenceArrayField> only accepts a single child (like <Datagrid>)''))
   \<and> (n = 1 \<longrightarrow> (\<exists>el. fst (ReferenceArrayField ctrl props calls) = Inr el))
   \<and> (isl (fst (ReferenceArrayField ctrl props calls)) \<longleftrightarrow> n \<noteq> 1)"
  by (simp add: ReferenceArrayField_def Let_def)

theorem ReferenceArrayField_throws_iff_not_one_child_witness:
  "Children_count (getProp (sampleFieldProps (JArr [sampleChild, sampleChild])) ''children'') = Inr 2
   \<and> fst (ReferenceArrayField sampleController
             (sampleFieldProps (JArr [sampleChild, sampleChild])) []) =
         Inl (UsageError ''<ReferenceArrayField> only accepts a single child (like <Datagrid>)'')
   \<and> isl (fst (ReferenceArrayField sampleController
                  (sampleFieldProps (JArr [sampleChild, sampleChild])) []))"
proof -
  have h: "Children_count
             (getProp (sampleFieldProps (JArr [sampleChild, sampleChild])) ''children'') = Inr 2"
    by (simp add: Children_count_def getProp_def sampleFieldProps_def sampleChild_def)
  show ?thesis
    using h ReferenceArrayField_throws_iff_not_one_child [OF h, of sampleController "[]"]
    by simp
qed

text \<open>
  C2. While \<open>loaded\<close> is false (or any other falsy value), \<open>ReferenceArrayFieldView\<close> returns
  the progress indicator alone: one \<open>LinearProgress\<close> element whose only prop is the class
  name from the style hook. The output has no children, so the child element is not in it.
\<close>

theorem view_not_loaded_shows_progress_only:
  "\<not> truthy (getProp props ''loaded'') \<Longrightarrow>
     ReferenceArrayFieldView sanitizeRestProps useStyles props =
       Inr (JElem ''LinearProgress'' None [(''className'', JStr (progress (useStyles props)))])"
  by (simp add: ReferenceArrayFieldView_def Let_def createElement_def omit_def RESERVED_PROPS_def)

theorem view_not_loaded_shows_progress_only_witness:
  "\<not> truthy (getProp (sampleViewProps (JBool False) samplePagination (JNum 2)) ''loaded'')
   \<and> ReferenceArrayFieldView sampleSanitize sampleStyles
        (sampleViewProps (JBool False) samplePagination (JNum 2)) =
       Inr (JElem ''LinearProgress'' None [(''className'', JStr ''RaReferenceArrayField-progress'')])"
proof -
  have h: "\<not> truthy (getProp (sampleViewProps (JBool False) samplePagination (JNum 2)) ''loaded'')"
    by (simp add: getProp_def sampleViewProps_def)
  show ?thesis
    using h view_not_loaded_shows_progress_only [OF h, of sampleSanitize sampleStyles]
    by (simp add: sampleStyles_def)
qed

text \<open>
  C3. Once \<open>loaded\<close> is truthy, the view clones the single child element with a config that
  is exactly the sanitized rest props, then \<open>className\<close>, then \<open>resource\<close> set to the
  \<open>reference\<close> prop. The rest props are the props without \<open>children\<close>, \<open>pagination\<close>,
  \<open>className\<close> and \<open>reference\<close>, so they still hold \<open>data\<close> and \<open>ids\<close>. The child is a
  React element and \<open>pagination\<close> is absent or an element, as the prop types say.
\<close>

theorem view_injects_props_into_child:
  assumes "truthy (getProp props ''loaded'')"
    and "getProp props ''children'' = JElem t d ps"
    and "getProp props ''pagination'' = JUndefined \<or> isValidElement (getProp props ''pagination'')"
    and "rest = omit [''children'', ''pagination'', ''className'', ''reference''] props"
    and "injected = assign (sanitizeRestProps rest)
           [(''className'', getProp props ''className''), (''resource'', getProp props ''reference'')]"
  shows "(\<exists>third. ReferenceArrayFieldView sanitizeRestProps useStyles props =
            Inr (JElem ''Fragment'' None
                   [(''children'', JArr [JElem t d (cloneProps d ps injected), JStr '' '', third])]))
       \<and> cloneElement (getProp props ''children'') injected = Inr (JElem t d (cloneProps d ps injected))
       \<and> fst ` set injected = fst ` set (sanitizeRestProps rest) \<union> {''className'', ''resource''}
       \<and> getProp injected ''className'' = getProp props ''className''
       \<and> getProp injected ''resource'' = getProp props ''reference''
       \<and> (\<forall>k. k \<noteq> ''className'' \<and> k \<noteq> ''resource'' \<longrightarrow>
              map_of injected k = map_of (sanitizeRestProps rest) k)
       \<and> fst ` set rest = fst ` set props - {''children'', ''pagination'', ''className'', ''reference''}
       \<and> (\<forall>k. k \<notin> {''children'', ''pagination'', ''className'', ''reference''} \<longrightarrow>
              map_of rest k = map_of props k)
       \<and> map_of rest ''data'' = map_of props ''data''
       \<and> map_of rest ''ids'' = map_of props ''ids''"
proof -
  have out: "\<exists>third. ReferenceArrayFieldView sanitizeRestProps useStyles props =
            Inr (JElem ''Fragment'' None
                   [(''children'', JArr [JElem t d (cloneProps d ps injected), JStr '' '', third])])"
  proof (cases "getProp props ''pagination''")
    case (JElem t' d' ps')
    then show ?thesis
      using assms(1,2,4,5) by (simp add: view_loaded Let_def)
  qed (use assms in \<open>simp_all add: view_loaded Let_def\<close>)
  have clone: "cloneElement (getProp props ''children'') injected = Inr (JElem t d (cloneProps d ps injected))"
    using assms(2) by simp
  have keys: "fst ` set injected = fst ` set (sanitizeRestProps rest) \<union> {''className'', ''resource''}"
    using assms(5) by (auto simp: assign_two keys_update)
  have cn: "getProp injected ''className'' = getProp props ''className''"
    using assms(5) by (simp add: assign_two getProp_update)
  have rs: "getProp injected ''resource'' = getProp props ''reference''"
    using assms(5) by (simp add: assign_two getProp_update)
  have others: "\<forall>k. k \<noteq> ''className'' \<and> k \<noteq> ''resource'' \<longrightarrow>
              map_of injected k = map_of (sanitizeRestProps rest) k"
    using assms(5) by (simp add: assign_two update_conv')
  have rkeys: "fst ` set rest = fst ` set props - {''children'', ''pagination'', ''className'', ''reference''}"
    using assms(4) by (simp add: keys_omit)
  have rvals: "\<forall>k. k \<notin> {''children'', ''pagination'', ''className'', ''reference''} \<longrightarrow>
              map_of rest k = map_of props k"
    using assms(4) by (simp add: map_of_omit)
  have data: "map_of rest ''data'' = map_of props ''data''" "map_of rest ''ids'' = map_of props ''ids''"
    using assms(4) by (simp_all add: map_of_omit)
  show ?thesis
    using out clone keys cn rs others rkeys rvals data by blast
qed

theorem view_injects_props_into_child_witness:
  "truthy (getProp (sampleViewProps (JBool True) JUndefined (JNum 2)) ''loaded'')
   \<and> getProp (sampleViewProps (JBool True) JUndefined (JNum 2)) ''children'' =
       JElem ''Datagrid'' None [(''className'', JStr ''grid'')]
   \<and> getProp (sampleViewProps (JBool True) JUndefined (JNum 2)) ''pagination'' = JUndefined
   \<and> cloneElement (getProp (sampleViewProps (JBool True) JUndefined (JNum 2)) ''children'')
        (assign (sampleSanitize (omit [''children'', ''pagination'', ''className'', ''reference'']
                                  (sampleViewProps (JBool True) JUndefined (JNum 2))))
           [(''className'', getProp (sampleViewProps (JBool True) JUndefined (JNum 2)) ''className''),
            (''resource'', getProp (sampleViewProps (JBool True) JUndefined (JNum 2)) ''reference'')]) =
       Inr (JElem ''Datagrid'' None
              [(''className'', JStr ''refs''), (''loaded'', JBool True),
               (''ids'', JArr [JNum 456, JNum 457]), (''total'', JNum 2),
               (''resource'', JStr ''products'')])"
proof -
  have h1: "truthy (getProp (sampleViewProps (JBool True) JUndefined (JNum 2)) ''loaded'')"
    by (simp add: getProp_def sampleViewProps_def)
  have h2: "getProp (sampleViewProps (JBool True) JUndefined (JNum 2)) ''children'' =
       JElem ''Datagrid'' None [(''className'', JStr ''grid'')]"
    by (simp add: getProp_def sampleViewProps_def sampleChild_def)
  have h3: "getProp (sampleViewProps (JBool True) JUndefined (JNum 2)) ''pagination'' = JUndefined
     \<or> isValidElement (getProp (sampleViewProps (JBool True) JUndefined (JNum 2)) ''pagination'')"
    by (simp add: getProp_def sampleViewProps_def)
  show ?thesis
    using h1 h2 view_injects_props_into_child [OF h1 h2 h3 refl refl, of sampleSanitize sampleStyles]
    by (simp add: sample_defs)
qed

text \<open>
  C4. Once \<open>loaded\<close> is truthy, the third slot of the output holds an element exactly when a
  pagination element was provided and \<open>total\<close> is not \<open>undefined\<close>; it is then the clone of
  the pagination element. Otherwise the slot holds \<open>undefined\<close> or \<open>false\<close>, which render
  nothing.
\<close>

theorem pagination_rendered_iff_provided_and_total_defined:
  assumes "truthy (getProp props ''loaded'')"
    and "getProp props ''children'' = JElem t d ps"
    and "getProp props ''pagination'' = JUndefined \<or> isValidElement (getProp props ''pagination'')"
  shows "\<exists>child third.
           ReferenceArrayFieldView sanitizeRestProps useStyles props =
             Inr (JElem ''Fragment'' None [(''children'', JArr [child, JStr '' '', third])])
         \<and> (isValidElement third \<longleftrightarrow>
              isValidElement (getProp props ''pagination'') \<and> getProp props ''total'' \<noteq> JUndefined)
         \<and> (isValidElement third \<longrightarrow>
              cloneElement (getProp props ''pagination'')
                (sanitizeRestProps (omit [''children'', ''pagination'', ''className'', ''reference''] props))
              = Inr third)
         \<and> (\<not> isValidElement third \<longrightarrow> third = JUndefined \<or> third = JBool False)"
proof (cases "getProp props ''pagination''")
  case (JElem t' d' ps')
  then show ?thesis
    using assms(1,2) by (simp add: view_loaded Let_def)
qed (use assms in \<open>simp_all add: view_loaded Let_def\<close>)

theorem pagination_rendered_iff_provided_and_total_defined_witness:
  "truthy (getProp (sampleViewProps (JBool True) samplePagination JUndefined) ''loaded'')
   \<and> getProp (sampleViewProps (JBool True) samplePagination JUndefined) ''children'' =
       JElem ''Datagrid'' None [(''className'', JStr ''grid'')]
   \<and> isValidElement (getProp (sampleViewProps (JBool True) samplePagination JUndefined) ''pagination'')
   \<and> ReferenceArrayFieldView sampleSanitize sampleStyles
        (sampleViewProps (JBool True) samplePagination JUndefined) =
       Inr (JElem ''Fragment'' None
              [(''children'',
                JArr [JElem ''Datagrid'' None
                        [(''className'', JStr ''refs''), (''loaded'', JBool True),
                         (''ids'', JArr [JNum 456, JNum 457]), (''total'', JUndefined),
                         (''resource'', JStr ''products'')],
                      JStr '' '', JBool False])])"
proof -
  have h1: "truthy (getProp (sampleViewProps (JBool True) samplePagination JUndefined) ''loaded'')"
    by (simp add: getProp_def sampleViewProps_def)
  have h2: "getProp (sampleViewProps (JBool True) samplePagination JUndefined) ''children'' =
       JElem ''Datagrid'' None [(''className'', JStr ''grid'')]"
    by (simp add: getProp_def sampleViewProps_def sampleChild_def)
  have h3: "isValidElement (getProp (sampleViewProps (JBool True) samplePagination JUndefined) ''pagination'')"
    by (simp add: getProp_def sampleViewProps_def samplePagination_def)
  have out: "ReferenceArrayFieldView sampleSanitize sampleStyles
        (sampleViewProps (JBool True) samplePagination JUndefined) =
       Inr (JElem ''Fragment'' None
              [(''children'',
                JArr [JElem ''Datagrid'' None
                        [(''className'', JStr ''refs''), (''loaded'', JBool True),
                         (''ids'', JArr [JNum 456, JNum 457]), (''total'', JUndefined),
                         (''resource'', JStr ''products'')],
                      JStr '' '', JBool False])])"
    by (simp add: view_loaded [OF h1 h2] Let_def) (simp add: sample_defs)
  show ?thesis
    using h1 h2 h3 out
      pagination_rendered_iff_provided_and_total_defined
        [OF h1 h2 disjI2 [OF h3], of sampleSanitize sampleStyles]
    by blast
qed

text \<open>
  C5. With one child, \<open>ReferenceArrayField\<close> calls the controller hook once, and the argument
  has exactly the nine fields \<open>basePath\<close>, \<open>filter\<close>, \<open>page\<close>, \<open>perPage\<close>, \<open>record\<close>,
  \<open>reference\<close>, \<open>resource\<close>, \<open>sort\<close> and \<open>source\<close>, each read from the props, with
  \<open>page\<close> replaced by 1 when the props leave it \<open>undefined\<close>. The call is the one recorded,
  and what the component returns is built from the hook's result on that very argument.
\<close>

theorem controller_called_once_with_nine_fields:
  assumes "Children_count (getProp props ''children'') = Inr 1"
    and "args = [(''basePath'', getProp props ''basePath''),
                 (''filter'', getProp props ''filter''),
                 (''page'', if getProp props ''page'' = JUndefined then JNum 1
                            else getProp props ''page''),
                 (''perPage'', getProp props ''perPage''),
                 (''record'', getProp props ''record''),
                 (''reference'', getProp props ''reference''),
                 (''resource'', getProp props ''resource''),
                 (''sort'', getProp props ''sort''),
                 (''source'', getProp props ''source'')]"
  shows "snd (ReferenceArrayField ctrl props calls) = calls @ [args]
       \<and> fst (ReferenceArrayField ctrl props calls) =
           Inr (JElem ''ListContextProvider'' None
                  [(''value'', JObj (ctrl args)),
                   (''children'',
                      JElem ''PureReferenceArrayFieldView'' None
                        (omit RESERVED_PROPS (assign (assign [] props) (ctrl args))))])"
  using assms
  by (simp add: ReferenceArrayField_def Let_def createElement_def omit_def RESERVED_PROPS_def)

theorem controller_called_once_with_nine_fields_witness:
  "Children_count (getProp (sampleFieldProps sampleChild) ''children'') = Inr 1
   \<and> snd (ReferenceArrayField samplePagingController (sampleFieldProps sampleChild) []) =
       [[(''basePath'', JUndefined), (''filter'', JUndefined), (''page'', JNum 1),
         (''perPage'', JUndefined), (''record'', JUndefined),
         (''reference'', JStr ''products''), (''resource'', JStr ''orders''),
         (''sort'', JUndefined), (''source'', JStr ''product_ids'')]]
   \<and> fst (ReferenceArrayField samplePagingController (sampleFieldProps sampleChild) []) =
       Inr (JElem ''ListContextProvider'' None
              [(''value'', JObj [(''loaded'', JBool False), (''page'', JNum 1),
                                 (''perPage'', JUndefined), (''resource'', JStr ''products'')]),
               (''children'',
                  JElem ''PureReferenceArrayFieldView'' None
                    [(''reference'', JStr ''products''), (''source'', JStr ''product_ids''),
                     (''resource'', JStr ''products''),
                     (''children'', JElem ''Datagrid'' None [(''className'', JStr ''grid'')]),
                     (''loaded'', JBool False), (''page'', JNum 1),
                     (''perPage'', JUndefined)])])"
proof -
  have h: "Children_count (getProp (sampleFieldProps sampleChild) ''children'') = Inr 1"
    by (simp add: Children_count_def getProp_def sampleFieldProps_def sampleChild_def)
  show ?thesis
    using h controller_called_once_with_nine_fields [OF h refl, of samplePagingController "[]"]
    by (simp add: sample_defs samplePagingController_def)
qed

text \<open>
  C6. With one child, the output of \<open>ReferenceArrayField\<close> is a \<open>ListContextProvider\<close>
  element whose \<open>value\<close> is the object the controller hook returned and whose only child is
  the memoized view, given the props overwritten by the controller's results. Nothing in
  the statement depends on \<open>loaded\<close>.
\<close>

theorem output_is_view_inside_list_context_provider:
  assumes "Children_count (getProp props ''children'') = Inr 1"
  shows "\<exists>args. snd (ReferenceArrayField ctrl props calls) = calls @ [args]
           \<and> fst (ReferenceArrayField ctrl props calls) =
               Inr (JElem ''ListContextProvider'' None
                      [(''value'', JObj (ctrl args)),
                       (''children'',
                          JElem ''PureReferenceArrayFieldView'' None
                            (omit RESERVED_PROPS (assign (assign [] props) (ctrl args))))])"
  using assms
  by (simp add: ReferenceArrayField_def Let_def createElement_def omit_def RESERVED_PROPS_def)

theorem output_is_view_inside_list_context_provider_witness:
  "Children_count (getProp (sampleFieldProps sampleChild) ''children'') = Inr 1
   \<and> fst (ReferenceArrayField sampleController (sampleFieldProps sampleChild) []) =
       Inr (JElem ''ListContextProvider'' None
              [(''value'', JObj [(''loaded'', JBool True), (''ids'', JArr [JNum 456, JNum 457]),
                                 (''total'', JNum 2)]),
               (''children'',
                  JElem ''PureReferenceArrayFieldView'' None
                    [(''reference'', JStr ''products''), (''source'', JStr ''product_ids''),
                     (''resource'', JStr ''orders''),
                     (''children'', JElem ''Datagrid'' None [(''className'', JStr ''grid'')]),
                     (''loaded'', JBool True), (''ids'', JArr [JNum 456, JNum 457]),
                     (''total'', JNum 2)])])"
proof -
  have h: "Children_count (getProp (sampleFieldProps sampleChild) ''children'') = Inr 1"
    by (simp add: Children_count_def getProp_def sampleFieldProps_def sampleChild_def)
  show ?thesis
    using h output_is_view_inside_list_context_provider [OF h, of sampleController "[]"]
    by (simp add: sample_defs)
qed

text \<open>
  C7, as amended. Once \<open>loaded\<close> is truthy, the output is a fragment of exactly three
  slots: the cloned child element, a text node of one space, and a third slot that is the
  cloned pagination element or an empty value (\<open>undefined\<close> or \<open>false\<close>).
\<close>

theorem loaded_output_is_child_space_pagination:
  assumes "truthy (getProp props ''loaded'')"
    and "getProp props ''children'' = JElem t d ps"
    and "getProp props ''pagination'' = JUndefined \<or> isValidElement (getProp props ''pagination'')"
    and "rest = omit [''children'', ''pagination'', ''className'', ''reference''] props"
  shows "\<exists>child third.
           ReferenceArrayFieldView sanitizeRestProps useStyles props =
             Inr (JElem ''Fragment'' None [(''children'', JArr [child, JStr '' '', third])])
         \<and> cloneElement (getProp props ''children'')
               (assign (sanitizeRestProps rest)
                  [(''className'', getProp props ''className''),
                   (''resource'', getProp props ''reference'')]) = Inr child
         \<and> (cloneElement (getProp props ''pagination'') (sanitizeRestProps rest) = Inr third
              \<or> third = JUndefined \<or> third = JBool False)"
proof (cases "getProp props ''pagination''")
  case (JElem t' d' ps')
  then show ?thesis
    using assms(1,2,4) by (simp add: view_loaded Let_def)
qed (use assms in \<open>simp_all add: view_loaded Let_def\<close>)

theorem loaded_output_is_child_space_pagination_witness:
  "truthy (getProp (sampleViewProps (JBool True) JUndefined (JNum 2)) ''loaded'')
   \<and> getProp (sampleViewProps (JBool True) JUndefined (JNum 2)) ''children'' =
       JElem ''Datagrid'' None [(''className'', JStr ''grid'')]
   \<and> getProp (sampleViewProps (JBool True) JUndefined (JNum 2)) ''pagination'' = JUndefined
   \<and> cloneElement (getProp (sampleViewProps (JBool True) JUndefined (JNum 2)) ''children'')
        (assign (sampleSanitize (omit [''children'', ''pagination'', ''className'', ''reference'']
                                  (sampleViewProps (JBool True) JUndefined (JNum 2))))
           [(''className'', getProp (sampleViewProps (JBool True) JUndefined (JNum 2)) ''className''),
            (''resource'', getProp (sampleViewProps (JBool True) JUndefined (JNum 2)) ''reference'')]) =
       Inr (JElem ''Datagrid'' None
              [(''className'', JStr ''refs''), (''loaded'', JBool True),
               (''ids'', JArr [JNum 456, JNum 457]), (''total'', JNum 2),
               (''resource'', JStr ''products'')])"
proof -
  have h1: "truthy (getProp (sampleViewProps (JBool True) JUndefined (JNum 2)) ''loaded'')"
    by (simp add: getProp_def sampleViewProps_def)
  have h2: "getProp (sampleViewProps (JBool True) JUndefined (JNum 2)) ''children'' =
       JElem ''Datagrid'' None [(''className'', JStr ''grid'')]"
    by (simp add: getProp_def sampleViewProps_def sampleChild_def)
  have h3: "getProp (sampleViewProps (JBool True) JUndefined (JNum 2)) ''pagination'' = JUndefined
     \<or> isValidElement (getProp (sampleViewProps (JBool True) JUndefined (JNum 2)) ''pagination'')"
    by (simp add: getProp_def sampleViewProps_def)
  show ?thesis
    using h1 h2 loaded_output_is_child_space_pagination [OF h1 h2 h3 refl, of sampleSanitize sampleStyles]
    by (simp add: sample_defs)
qed

text \<open>
  The claim as first stated leaves the text node out: for a loaded view with no pagination
  the output is not the cloned child alone.
\<close>

theorem loaded_output_has_text_node_counterexample:
  "ReferenceArrayFieldView sampleSanitize sampleStyles
     (sampleViewProps (JBool True) JUndefined (JNum 2)) =
     Inr (JElem ''Fragment'' None
            [(''children'',
              JArr [JElem ''Datagrid'' None
                      [(''className'', JStr ''refs''), (''loaded'', JBool True),
                       (''ids'', JArr [JNum 456, JNum 457]), (''total'', JNum 2),
                       (''resource'', JStr ''products'')],
                    JStr '' '', JUndefined])])
   \<and> ReferenceArrayFieldView sampleSanitize sampleStyles
     (sampleViewProps (JBool True) JUndefined (JNum 2)) \<noteq>
     Inr (createElement ''Fragment'' None []
            [JElem ''Datagrid'' None
                      [(''className'', JStr ''refs''), (''loaded'', JBool True),
                       (''ids'', JArr [JNum 456, JNum 457]), (''total'', JNum 2),
                       (''resource'', JStr ''products'')]])"
  by (simp add: ReferenceArrayFieldView_def Let_def Children_only_def createElement_def sample_defs)

text \<open>
  C8. When the child count is not one, the usage error is the result and the list of hook
  calls is returned unchanged: the controller hook has not been called, and the outcome
  does not depend on the hook at all.
\<close>

theorem usage_error_precedes_controller_call:
  assumes "Children_count (getProp props ''children'') = Inr n" and "n \<noteq> 1"
  shows "snd (ReferenceArrayField ctrl props calls) = calls
       \<and> ReferenceArrayField ctrl props calls =
           (Inl (UsageError ''<ReferenceArrayField> only accepts a single child (like <Datagrid>)''), calls)
       \<and> ReferenceArrayField ctrl' props calls = ReferenceArrayField ctrl props calls"
  using assms by (simp add: ReferenceArrayField_def Let_def)

theorem usage_error_precedes_controller_call_witness:
  "Children_count (getProp (sampleFieldProps JUndefined) ''children'') = Inr 0
   \<and> (0::nat) \<noteq> 1
   \<and> snd (ReferenceArrayField sampleController (sampleFieldProps JUndefined) []) = []"
proof -
  have h: "Children_count (getProp (sampleFieldProps JUndefined) ''children'') = Inr 0"
    by (simp add: Children_count_def getProp_def sampleFieldProps_def)
  have n: "(0::nat) \<noteq> 1" by simp
  show ?thesis
    using h n usage_error_precedes_controller_call [OF h n, of sampleController "[]"]
    by simp
qed

text \<open>
  C9. When the pagination element is rendered, its clone is made with the sanitized rest
  props alone, while the child's clone also gets \<open>className\<close> and \<open>resource\<close>. The rest
  props handed to \<open>sanitizeRestProps\<close> hold none of \<open>children\<close>, \<open>pagination\<close>,
  \<open>className\<close> and \<open>reference\<close>, and every prop that the sanitized rest props do not name
  stays as the pagination element had it.
\<close>

theorem pagination_receives_only_sanitized_rest:
  assumes "truthy (getProp props ''loaded'')"
    and "getProp props ''children'' = JElem t d ps"
    and "getProp props ''pagination'' = JElem t' d' ps'"
    and "getProp props ''total'' \<noteq> JUndefined"
    and "rest = omit [''children'', ''pagination'', ''className'', ''reference''] props"
  shows "ReferenceArrayFieldView sanitizeRestProps useStyles props =
           Inr (JElem ''Fragment'' None
                  [(''children'',
                    JArr [JElem t d (cloneProps d ps
                            (assign (sanitizeRestProps rest)
                               [(''className'', getProp props ''className''),
                                (''resource'', getProp props ''reference'')])),
                          JStr '' '',
                          JElem t' d' (cloneProps d' ps' (sanitizeRestProps rest))])])
       \<and> cloneElement (getProp props ''pagination'') (sanitizeRestProps rest) =
           Inr (JElem t' d' (cloneProps d' ps' (sanitizeRestProps rest)))
       \<and> (\<forall>k \<in> {''children'', ''pagination'', ''className'', ''reference''}. map_of rest k = None)
       \<and> (\<forall>k. k \<notin> fst ` set (sanitizeRestProps rest) \<longrightarrow>
              map_of (cloneProps d' ps' (sanitizeRestProps rest)) k = map_of ps' k)"
  using assms by (simp add: view_loaded Let_def map_of_omit cloneProps_other)

theorem pagination_receives_only_sanitized_rest_witness:
  "truthy (getProp (sampleViewProps (JBool True) samplePagination (JNum 2)) ''loaded'')
   \<and> getProp (sampleViewProps (JBool True) samplePagination (JNum 2)) ''children'' =
       JElem ''Datagrid'' None [(''className'', JStr ''grid'')]
   \<and> getProp (sampleViewProps (JBool True) samplePagination (JNum 2)) ''pagination'' =
       JElem ''Pagination'' (Some [(''rowsPerPage'', JNum 25)]) [(''rowsPerPage'', JNum 25)]
   \<and> getProp (sampleViewProps (JBool True) samplePagination (JNum 2)) ''total'' \<noteq> JUndefined
   \<and> ReferenceArrayFieldView sampleSanitize sampleStyles
        (sampleViewProps (JBool True) samplePagination (JNum 2)) =
       Inr (JElem ''Fragment'' None
              [(''children'',
                JArr [JElem ''Datagrid'' None
                        [(''className'', JStr ''refs''), (''loaded'', JBool True),
                         (''ids'', JArr [JNum 456, JNum 457]), (''total'', JNum 2),
                         (''resource'', JStr ''products'')],
                      JStr '' '',
                      JElem ''Pagination'' (Some [(''rowsPerPage'', JNum 25)])
                        [(''rowsPerPage'', JNum 25), (''loaded'', JBool True),
                         (''ids'', JArr [JNum 456, JNum 457]), (''total'', JNum 2)]])])"
proof -
  have h1: "truthy (getProp (sampleViewProps (JBool True) samplePagination (JNum 2)) ''loaded'')"
    by (simp add: getProp_def sampleViewProps_def)
  have h2: "getProp (sampleViewProps (JBool True) samplePagination (JNum 2)) ''children'' =
       JElem ''Datagrid'' None [(''className'', JStr ''grid'')]"
    by (simp add: getProp_def sampleViewProps_def sampleChild_def)
  have h3: "getProp (sampleViewProps (JBool True) samplePagination (JNum 2)) ''pagination'' =
       JElem ''Pagination'' (Some [(''rowsPerPage'', JNum 25)]) [(''rowsPerPage'', JNum 25)]"
    by (simp add: getProp_def sampleViewProps_def samplePagination_def)
  have h4: "getProp (sampleViewProps (JBool True) samplePagination (JNum 2)) ''total'' \<noteq> JUndefined"
    by (simp add: getProp_def sampleViewProps_def)
  show ?thesis
    using h1 h2 h3 h4
      pagination_receives_only_sanitized_rest [OF h1 h2 h3 h4 refl, of sampleSanitize sampleStyles]
    by (simp add: sample_defs)
qed

text \<open>
  C10, as amended. The output of the view is determined by its props and by the class name
  the style hook returns. For two invocations with the same props: once \<open>loaded\<close> is
  truthy the outputs are equal whatever the style hook returns in either; while \<open>loaded\<close>
  is falsy the outputs are equal exactly when the hook returns the same \<open>progress\<close> class
  in both.
\<close>

theorem view_output_determined_by_props_and_progress_class:
  "(truthy (getProp props ''loaded'') \<longrightarrow>
      ReferenceArrayFieldView sanitizeRestProps useStyles props =
      ReferenceArrayFieldView sanitizeRestProps useStyles' props)
   \<and> (\<not> truthy (getProp props ''loaded'') \<longrightarrow>
      (ReferenceArrayFieldView sanitizeRestProps useStyles props =
       ReferenceArrayFieldView sanitizeRestProps useStyles' props
       \<longleftrightarrow> progress (useStyles props) = progress (useStyles' props)))"
  by (simp add: ReferenceArrayFieldView_def Let_def createElement_def omit_def RESERVED_PROPS_def)

theorem view_output_determined_by_props_and_progress_class_witness:
  "truthy (getProp (sampleViewProps (JBool True) samplePagination (JNum 2)) ''loaded'')
   \<and> ReferenceArrayFieldView sampleSanitize sampleStylesFirstSheet
        (sampleViewProps (JBool True) samplePagination (JNum 2)) =
      ReferenceArrayFieldView sampleSanitize sampleStylesSecondSheet
        (sampleViewProps (JBool True) samplePagination (JNum 2))
   \<and> \<not> truthy (getProp (sampleViewProps (JBool False) samplePagination (JNum 2)) ''loaded'')
   \<and> ReferenceArrayFieldView sampleSanitize sampleStylesFirstSheet
        (sampleViewProps (JBool False) samplePagination (JNum 2)) =
      ReferenceArrayFieldView sampleSanitize sampleStylesFirstSheet
        (sampleViewProps (JBool False) samplePagination (JNum 2))"
proof -
  have h: "truthy (getProp (sampleViewProps (JBool True) samplePagination (JNum 2)) ''loaded'')"
    by (simp add: getProp_def sampleViewProps_def)
  have g: "\<not> truthy (getProp (sampleViewProps (JBool False) samplePagination (JNum 2)) ''loaded'')"
    by (simp add: getProp_def sampleViewProps_def)
  show ?thesis
    using h g
      view_output_determined_by_props_and_progress_class
        [of "sampleViewProps (JBool True) samplePagination (JNum 2)"
            sampleSanitize sampleStylesFirstSheet sampleStylesSecondSheet]
      view_output_determined_by_props_and_progress_class
        [of "sampleViewProps (JBool False) samplePagination (JNum 2)"
            sampleSanitize sampleStylesFirstSheet sampleStylesFirstSheet]
    by simp
qed

text \<open>
  The claim as first stated makes the props alone decide the output. While loading, two
  invocations with the same props differ as soon as the style hook returns another class
  name.
\<close>

theorem view_output_follows_style_hook_counterexample:
  "ReferenceArrayFieldView sampleSanitize sampleStylesFirstSheet
     (sampleViewProps (JBool False) samplePagination (JNum 2)) =
     Inr (JElem ''LinearProgress'' None
            [(''className'', JStr ''RaReferenceArrayField-progress-1'')])
   \<and> ReferenceArrayFieldView sampleSanitize sampleStylesSecondSheet
     (sampleViewProps (JBool False) samplePagination (JNum 2)) =
     Inr (JElem ''LinearProgress'' None
            [(''className'', JStr ''RaReferenceArrayField-progress-2'')])
   \<and> ReferenceArrayFieldView sampleSanitize sampleStylesFirstSheet
     (sampleViewProps (JBool False) samplePagination (JNum 2)) \<noteq>
     ReferenceArrayFieldView sampleSanitize sampleStylesSecondSheet
     (sampleViewProps (JBool False) samplePagination (JNum 2))"
  by (simp add: ReferenceArrayFieldView_def Let_def createElement_def omit_def RESERVED_PROPS_def
      getProp_def sampleViewProps_def sampleStylesFirstSheet_def sampleStylesSecondSheet_def)

end
